theory Spec2Isabelle
  imports Main "HOL-Library.Sublist"
begin

section \<open>Values of the host language\<close>

text \<open>
  The provider is TypeScript: what \<open>JSON.parse\<close> and \<open>response.json()\<close> hand back is
  an untyped value, and the source reads properties of it and puts it into template strings.
  A value is therefore modelled as the source can see it. The source does no arithmetic, so a
  number is held as its decimal rendering (what a template string prints); the two numbers
  that are falsy render as \<open>0\<close> and \<open>NaN\<close>. An object is the list of its own properties.
\<close>

datatype jsval =
    JUndefined
  | JNull
  | JBool bool
  | JNum string
  | JStr string
  | JArr "jsval list"
  | JObj "(string \<times> jsval) list"

text \<open>
  The errors the code can raise. \<open>Error m\<close> is \<open>throw new Error(m)\<close>, the only error the
  source constructs itself; \<open>TypeError\<close> and \<open>SyntaxError\<close> are raised by the language
  (a property of \<open>undefined\<close>, a body that is not JSON); \<open>LoadAPIKeyError\<close> is raised by the
  imported \<open>loadApiKey\<close> and carries the description and the name of the variable.
\<close>

datatype error =
    Error string
  | TypeError
  | SyntaxError
  | LoadAPIKeyError string string

definition bindE :: "error + 'a \<Rightarrow> ('a \<Rightarrow> error + 'b) \<Rightarrow> error + 'b" where
  "bindE m f = (case m of Inl e \<Rightarrow> Inl e | Inr x \<Rightarrow> f x)"

text \<open>Truthiness, as tested by \<open>if (v)\<close>.\<close>

fun truthy :: "jsval \<Rightarrow> bool" where
  "truthy JUndefined = False"
| "truthy JNull = False"
| "truthy (JBool b) = b"
| "truthy (JNum n) = (n \<noteq> ''0'' \<and> n \<noteq> ''NaN'')"
| "truthy (JStr s) = (s \<noteq> [])"
| "truthy (JArr xs) = True"
| "truthy (JObj kvs) = True"

text \<open>
  Reading \<open>v.name\<close>, for the property names the source reads (\<open>serviceurls\<close>, \<open>AI_API_URL\<close>,
  \<open>url\<close>, \<open>clientid\<close>, \<open>clientsecret\<close>, \<open>access_token\<close>): none of them is defined on the
  prototype of a primitive, an array or an object, so only an own property of an object has a
  value. On \<open>undefined\<close> and \<open>null\<close> the read throws.
\<close>

fun get_prop :: "jsval \<Rightarrow> string \<Rightarrow> error + jsval" where
  "get_prop JUndefined name = Inl TypeError"
| "get_prop JNull name = Inl TypeError"
| "get_prop (JObj kvs) name = Inr (case map_of kvs name of Some v \<Rightarrow> v | None \<Rightarrow> JUndefined)"
| "get_prop v name = Inr JUndefined"

text \<open>
  What a template string \<open>`${v}`\<close> prints. An array prints its elements joined by commas,
  \<open>undefined\<close> and \<open>null\<close> elements as nothing. An object prints \<open>[object Object]\<close>, unless it has
  an own property \<open>toString\<close>: that one is not callable, and the conversion throws.
\<close>

fun toStr :: "jsval \<Rightarrow> error + string"
  and joinElems :: "jsval list \<Rightarrow> error + string"
  and elemStr :: "jsval \<Rightarrow> error + string"
where
  "toStr JUndefined = Inr ''undefined''"
| "toStr JNull = Inr ''null''"
| "toStr (JBool b) = Inr (if b then ''true'' else ''false'')"
| "toStr (JNum n) = Inr n"
| "toStr (JStr s) = Inr s"
| "toStr (JArr xs) = joinElems xs"
| "toStr (JObj kvs) =
     (if ''toString'' \<in> fst ` set kvs then Inl TypeError else Inr ''[object Object]'')"
| "joinElems [] = Inr []"
| "joinElems [x] = elemStr x"
| "joinElems (x # y # r) =
     (case elemStr x of
        Inl e \<Rightarrow> Inl e
      | Inr s \<Rightarrow> (case joinElems (y # r) of Inl e \<Rightarrow> Inl e | Inr t \<Rightarrow> Inr (s @ '','' @ t)))"
| "elemStr JUndefined = Inr []"
| "elemStr JNull = Inr []"
| "elemStr (JBool b) = toStr (JBool b)"
| "elemStr (JNum n) = toStr (JNum n)"
| "elemStr (JStr s) = toStr (JStr s)"
| "elemStr (JArr xs) = toStr (JArr xs)"
| "elemStr (JObj kvs) = toStr (JObj kvs)"

text \<open>The decimal rendering of a natural number (an HTTP status in a template string).\<close>

fun show_nat :: "nat \<Rightarrow> string" where
  "show_nat n =
     (if n < 10 then [char_of (48 + n)]
      else show_nat (n div 10) @ [char_of (48 + n mod 10)])"

declare show_nat.simps [simp del]

text \<open>Base64 of a byte string (\<open>Buffer.from(s).toString("base64")\<close>, \<open>btoa(s)\<close>).\<close>

definition b64char :: "nat \<Rightarrow> char" where
  "b64char n =
     ''ABCDEFGHIJKLMNOPQRSTUVWXYZabcdefghijklmnopqrstuvwxyz0123456789+/'' ! n"

fun base64_bytes :: "nat list \<Rightarrow> string" where
  "base64_bytes [] = []"
| "base64_bytes [a] = [b64char (a div 4), b64char ((a mod 4) * 16), CHR ''='', CHR ''='']"
| "base64_bytes [a, b] =
     [b64char (a div 4), b64char ((a mod 4) * 16 + b div 16), b64char ((b mod 16) * 4),
      CHR ''='']"
| "base64_bytes (a # b # c # r) =
     [b64char (a div 4), b64char ((a mod 4) * 16 + b div 16),
      b64char ((b mod 16) * 4 + c div 64), b64char (c mod 64)] @ base64_bytes r"

definition base64 :: "string \<Rightarrow> string" where
  "base64 s = base64_bytes (map of_char s)"


section \<open>Data model\<close>

text \<open>The typed service key (interface \<open>SAPAIServiceKey\<close>).\<close>

record serviceurls_t =
  AI_API_URL :: string

record SAPAIServiceKey =
  serviceurls :: serviceurls_t
  clientid :: string
  clientsecret :: string
  url :: string
  identityzone :: "string option"
  identityzoneid :: "string option"
  appname :: "string option"
  credential_type :: "string option"

text \<open>\<open>serviceKey?: string | SAPAIServiceKey\<close>.\<close>

datatype service_key_input = KeyText string | KeyObject SAPAIServiceKey

definition opt_prop :: "string \<Rightarrow> string option \<Rightarrow> (string \<times> jsval) list" where
  "opt_prop name v = (case v of None \<Rightarrow> [] | Some s \<Rightarrow> [(name, JStr s)])"

text \<open>A typed service key as the value the code then reads properties of.\<close>

definition key_value :: "SAPAIServiceKey \<Rightarrow> jsval" where
  "key_value k =
     JObj ([(''serviceurls'', JObj [(''AI_API_URL'', JStr (AI_API_URL (serviceurls k)))]),
            (''clientid'', JStr (clientid k)),
            (''clientsecret'', JStr (clientsecret k)),
            (''url'', JStr (url k))]
           @ opt_prop ''identityzone'' (identityzone k)
           @ opt_prop ''identityzoneid'' (identityzoneid k)
           @ opt_prop ''appname'' (appname k)
           @ opt_prop ''credential-type'' (credential_type k))"

text \<open>
  Call settings (\<open>SAPAISettings\<close>, declared in a file that is not part of the source): a mapping
  of keys to values with the sub-mapping \<open>modelParams\<close>; \<open>others\<close> holds the keys other than
  \<open>modelParams\<close>. An absent, \<open>undefined\<close> or \<open>null\<close> \<open>modelParams\<close> is \<open>None\<close>.
\<close>

record SAPAISettings =
  modelParams :: "(string \<rightharpoonup> jsval) option"
  others :: "string \<rightharpoonup> jsval"

text \<open>The HTTP exchange of the token request, as \<open>fetch\<close> sees it.\<close>

record request =
  req_url :: string
  req_method :: string
  req_headers :: "(string \<times> string) list"
  req_body :: string

record response =
  ok :: bool
  status :: nat
  statusText :: string
  responseText :: string

type_synonym fetchfn = "request \<Rightarrow> error + response"

text \<open>\<open>SAPAIProviderSettings\<close>: every field is optional.\<close>

record SAPAIProviderSettings =
  serviceKey :: "service_key_input option"
  token :: "string option"
  deploymentId :: "string option"
  resourceGroup :: "string option"
  baseURL :: "string option"
  completionPath :: "string option"
  headers :: "(string \<rightharpoonup> string) option"
  fetch :: "fetchfn option"
  defaultSettings :: "SAPAISettings option"

text \<open>
  What the code takes from its platform: \<open>JSON.parse\<close> (\<open>None\<close> when it throws),
  \<open>process.env\<close>, and the global \<open>fetch\<close>.
\<close>

record runtime =
  JSON_parse :: "string \<Rightarrow> jsval option"
  process_env :: "string \<rightharpoonup> string"
  global_fetch :: fetchfn

text \<open>What provider creation does to the outside: calls of \<open>fetch\<close> and reads of the environment.\<close>

datatype effect = NetworkCall request | EnvRead string

text \<open>
  The variables the returned provider closes over: \<open>baseURL\<close>, \<open>authToken\<close>, \<open>deploymentId\<close>,
  \<open>resourceGroup\<close>, and the four fields of \<open>options\<close> that \<open>createModel\<close> reads.
\<close>

record SAPAIProvider =
  cl_baseURL :: string
  cl_authToken :: jsval
  cl_deploymentId :: string
  cl_resourceGroup :: string
  cl_completionPath :: "string option"
  cl_headers :: "(string \<rightharpoonup> string) option"
  cl_fetch :: "fetchfn option"
  cl_defaultSettings :: "SAPAISettings option"

text \<open>
  A model handle is the argument list of \<open>new SAPAIChatLanguageModel(modelId, settings, config)\<close>;
  the class itself is a collaborator outside the source.
\<close>

record model_config =
  cfg_provider :: string
  cfg_baseURL :: string
  cfg_headers :: "unit \<Rightarrow> error + (string \<rightharpoonup> string)"
  cfg_fetch :: "fetchfn option"

record SAPAIChatLanguageModel =
  modelId :: string
  settings :: SAPAISettings
  config :: model_config

section \<open>Imported helpers\<close>

text \<open>
  Modelled from the spec: \<open>withoutTrailingSlash\<close> is imported from \<open>@ai-sdk/provider-utils\<close>
  and not defined in the source; the spec says of the base URL "trailing slash stripped".
  An absent URL stays absent.
\<close>

definition withoutTrailingSlash :: "string option \<Rightarrow> string option" where
  "withoutTrailingSlash u =
     map_option (\<lambda>s. if s \<noteq> [] \<and> last s = CHR ''/'' then butlast s else s) u"

text \<open>
  Modelled from the spec: \<open>loadApiKey\<close> is imported from \<open>@ai-sdk/provider-utils\<close> and not
  defined in the source; the spec says a token is read from the environment variable and that
  its absence is an error. A key passed directly is returned as it is.
\<close>

definition loadApiKey ::
  "runtime \<Rightarrow> string option \<Rightarrow> string \<Rightarrow> string \<Rightarrow> error + string" where
  "loadApiKey rt apiKey environmentVariableName description =
     (case apiKey of
        Some k \<Rightarrow> Inr k
      | None \<Rightarrow>
          (case process_env rt environmentVariableName of
             None \<Rightarrow> Inl (LoadAPIKeyError description environmentVariableName)
           | Some v \<Rightarrow> Inr v))"


section \<open>The OAuth2 client-credentials exchange (\<open>getOAuthToken\<close>)\<close>

text \<open>
  The request of lines 274 to 287: the token URL and the Basic credentials are template
  strings over properties of the service key, evaluated in this order.
\<close>

definition tokenRequest :: "jsval \<Rightarrow> error + request" where
  "tokenRequest k =
     bindE (bindE (get_prop k ''url'') toStr) (\<lambda>u.
     bindE (bindE (get_prop k ''clientid'') toStr) (\<lambda>cid.
     bindE (bindE (get_prop k ''clientsecret'') toStr) (\<lambda>secret.
       Inr \<lparr> req_url = u @ ''/oauth/token'',
             req_method = ''POST'',
             req_headers =
               [(''Content-Type'', ''application/x-www-form-urlencoded''),
                (''Authorization'', ''Basic '' @ base64 (cid @ '':'' @ secret))],
             req_body = ''grant_type=client_credentials'' \<rparr>)))"

text \<open>
  Lines 289 to 297: a response that is not \<open>ok\<close> raises the error with status, status text
  and body; otherwise the body is parsed and its \<open>access_token\<close> is the result.
\<close>

definition readToken :: "runtime \<Rightarrow> response \<Rightarrow> error + jsval" where
  "readToken rt r =
     (if \<not> ok r then
        Inl (Error (''Failed to get OAuth access token: '' @ show_nat (status r) @ '' ''
                    @ statusText r @ [CHR 0x0A] @ responseText r))
      else
        (case JSON_parse rt (responseText r) of
           None \<Rightarrow> Inl SyntaxError
         | Some tokenData \<Rightarrow> get_prop tokenData ''access_token''))"

definition getOAuthToken ::
  "runtime \<Rightarrow> jsval \<Rightarrow> fetchfn option \<Rightarrow> effect list \<times> (error + jsval)" where
  "getOAuthToken rt k customFetch =
     (let fetchFn = (case customFetch of Some f \<Rightarrow> f | None \<Rightarrow> global_fetch rt) in
      case tokenRequest k of
        Inl e \<Rightarrow> ([], Inl e)
      | Inr rq \<Rightarrow> ([NetworkCall rq], bindE (fetchFn rq) (readToken rt)))"

section \<open>Provider creation (\<open>createSAPAIProvider\<close>)\<close>

text \<open>Lines 392 to 403: the service key, parsed when it is a non-empty string.\<close>

definition parseServiceKey :: "runtime \<Rightarrow> SAPAIProviderSettings \<Rightarrow> error + jsval" where
  "parseServiceKey rt options =
     (case serviceKey options of
        None \<Rightarrow> Inr JUndefined
      | Some (KeyText s) \<Rightarrow>
          (if s = [] then Inr JUndefined
           else (case JSON_parse rt s of
                   None \<Rightarrow> Inl (Error ''Invalid service key JSON format'')
                 | Some v \<Rightarrow> Inr v))
      | Some (KeyObject k) \<Rightarrow> Inr (key_value k))"

definition defaultBaseURL :: string where
  "defaultBaseURL = ''https://api.ai.prod.eu-central-1.aws.ml.hana.ondemand.com/v2''"

text \<open>Lines 405 to 414: the base URL.\<close>

definition determineBaseURL :: "SAPAIProviderSettings \<Rightarrow> jsval \<Rightarrow> error + string" where
  "determineBaseURL options parsedServiceKey =
     (if truthy parsedServiceKey then
        (case withoutTrailingSlash (baseURL options) of
           Some b \<Rightarrow> Inr b
         | None \<Rightarrow>
             bindE (bindE (bindE (get_prop parsedServiceKey ''serviceurls'')
                                 (\<lambda>su. get_prop su ''AI_API_URL'')) toStr)
                   (\<lambda>u. Inr (u @ ''/v2'')))
      else
        (case withoutTrailingSlash (baseURL options) of
           Some b \<Rightarrow> Inr b
         | None \<Rightarrow> Inr defaultBaseURL))"

text \<open>Lines 416 to 429: the token, with the calls of \<open>fetch\<close> and the reads of the environment.\<close>

definition determineAuthentication ::
  "runtime \<Rightarrow> SAPAIProviderSettings \<Rightarrow> jsval \<Rightarrow> effect list \<times> (error + jsval)" where
  "determineAuthentication rt options parsedServiceKey =
     (if (case token options of None \<Rightarrow> False | Some t \<Rightarrow> t \<noteq> []) then
        ([], Inr (case token options of None \<Rightarrow> JUndefined | Some t \<Rightarrow> JStr t))
      else if truthy parsedServiceKey then
        getOAuthToken rt parsedServiceKey (fetch options)
      else
        ([EnvRead ''SAP_AI_TOKEN''],
         map_sum id JStr (loadApiKey rt None ''SAP_AI_TOKEN'' ''SAP AI Core'')))"

definition defaultDeploymentId :: string where
  "defaultDeploymentId = ''d65d81e7c077e583''"

definition createSAPAIProvider ::
  "runtime \<Rightarrow> SAPAIProviderSettings \<Rightarrow> effect list \<times> (error + SAPAIProvider)" where
  "createSAPAIProvider rt options =
     (case parseServiceKey rt options of
        Inl e \<Rightarrow> ([], Inl e)
      | Inr parsedServiceKey \<Rightarrow>
          (case determineBaseURL options parsedServiceKey of
             Inl e \<Rightarrow> ([], Inl e)
           | Inr b \<Rightarrow>
               (case determineAuthentication rt options parsedServiceKey of
                  (effects, Inl e) \<Rightarrow> (effects, Inl e)
                | (effects, Inr authToken) \<Rightarrow>
                    (effects,
                     Inr \<lparr> cl_baseURL = b,
                           cl_authToken = authToken,
                           cl_deploymentId =
                             (case deploymentId options of
                                None \<Rightarrow> defaultDeploymentId | Some d \<Rightarrow> d),
                           cl_resourceGroup =
                             (case resourceGroup options of None \<Rightarrow> ''default'' | Some g \<Rightarrow> g),
                           cl_completionPath = completionPath options,
                           cl_headers = headers options,
                           cl_fetch = fetch options,
                           cl_defaultSettings = defaultSettings options \<rparr>))))"

section \<open>The model factory (\<open>createModel\<close>) and the provider function\<close>

definition spread :: "('k \<rightharpoonup> 'v) option \<Rightarrow> ('k \<rightharpoonup> 'v)" where
  "spread m = (case m of None \<Rightarrow> Map.empty | Some f \<Rightarrow> f)"

text \<open>Lines 436 to 443 (and 492 to 499): the merge of the default and the per-call settings.\<close>

definition mergedSettings :: "SAPAISettings option \<Rightarrow> SAPAISettings \<Rightarrow> SAPAISettings" where
  "mergedSettings dflt s =
     \<lparr> modelParams =
         Some (spread (case dflt of None \<Rightarrow> None | Some d \<Rightarrow> modelParams d)
               ++ spread (modelParams s)),
       others = spread (map_option others dflt) ++ others s \<rparr>"

definition emptySettings :: SAPAISettings where
  "emptySettings = \<lparr> modelParams = None, others = Map.empty \<rparr>"

text \<open>Lines 451 to 456: the header function.\<close>

definition headerFactory :: "SAPAIProvider \<Rightarrow> unit \<Rightarrow> error + (string \<rightharpoonup> string)" where
  "headerFactory p = (\<lambda>_.
     bindE (toStr (cl_authToken p)) (\<lambda>t.
       Inr ([''Authorization'' \<mapsto> ''Bearer '' @ t,
             ''Content-Type'' \<mapsto> ''application/json'',
             ''ai-resource-group'' \<mapsto> cl_resourceGroup p]
            ++ spread (cl_headers p))))"

text \<open>Lines 435 to 459; an omitted \<open>settings\<close> is the empty bag.\<close>

definition createModel ::
  "SAPAIProvider \<Rightarrow> string \<Rightarrow> SAPAISettings option \<Rightarrow> SAPAIChatLanguageModel" where
  "createModel p mid s =
     \<lparr> modelId = mid,
       settings =
         mergedSettings (cl_defaultSettings p) (case s of None \<Rightarrow> emptySettings | Some x \<Rightarrow> x),
       config =
         \<lparr> cfg_provider = ''sap-ai'',
           cfg_baseURL =
             (case cl_completionPath p of
                Some cp \<Rightarrow> cl_baseURL p @ cp
              | None \<Rightarrow>
                  cl_baseURL p @ ''/inference/deployments/'' @ cl_deploymentId p
                  @ ''/v2/completion''),
           cfg_headers = headerFactory p,
           cfg_fetch = cl_fetch p \<rparr> \<rparr>"

text \<open>
  Lines 462 to 472: the provider function, \<open>new_target\<close> telling whether it was called with
  \<open>new\<close>, and its \<open>chat\<close> property.
\<close>

definition provider_call ::
  "SAPAIProvider \<Rightarrow> bool \<Rightarrow> string \<Rightarrow> SAPAISettings option \<Rightarrow> error + SAPAIChatLanguageModel"
where
  "provider_call p new_target mid s =
     (if new_target then
        Inl (Error ''The SAP AI provider function cannot be called with the new keyword.'')
      else Inr (createModel p mid s))"

definition provider_chat ::
  "SAPAIProvider \<Rightarrow> string \<Rightarrow> SAPAISettings option \<Rightarrow> SAPAIChatLanguageModel" where
  "provider_chat p mid s = createModel p mid s"

section \<open>The synchronous variant and the default instance\<close>

text \<open>
  Lines 481 to 530. The options have no service key and a required token; the inner
  \<open>createModel\<close> and provider function repeat lines 435 to 472 with \<open>options.token\<close> in the
  place of \<open>authToken\<close>, so the handle is used through the same two functions.
\<close>

definition createSAPAIProviderSync :: "string \<Rightarrow> SAPAIProviderSettings \<Rightarrow> SAPAIProvider" where
  "createSAPAIProviderSync tok options =
     \<lparr> cl_baseURL =
         (case withoutTrailingSlash (baseURL options) of
            Some b \<Rightarrow> b | None \<Rightarrow> defaultBaseURL),
       cl_authToken = JStr tok,
       cl_deploymentId =
         (case deploymentId options of None \<Rightarrow> defaultDeploymentId | Some d \<Rightarrow> d),
       cl_resourceGroup = (case resourceGroup options of None \<Rightarrow> ''default'' | Some g \<Rightarrow> g),
       cl_completionPath = completionPath options,
       cl_headers = headers options,
       cl_fetch = fetch options,
       cl_defaultSettings = defaultSettings options \<rparr>"

definition noOptions :: SAPAIProviderSettings where
  "noOptions =
     \<lparr> serviceKey = None, token = None, deploymentId = None, resourceGroup = None,
       baseURL = None, completionPath = None, headers = None, fetch = None,
       defaultSettings = None \<rparr>"

definition defaultInstanceMessage :: string where
  "defaultInstanceMessage =
     ''SAP_AI_TOKEN environment variable is required for default instance. ''
     @ ''Either set SAP_AI_TOKEN or use createSAPAIProvider({ serviceKey: \"...\" }) instead.''"

text \<open>
  Lines 536 to 557. \<open>createDefaultSAPAI\<close> only builds two closures; the handle it returns has
  no state, and its behaviour is that of the two functions below. The provider function of
  the default instance does not look at \<open>new.target\<close>, and as it returns an object, a call
  with \<open>new\<close> yields that object.
\<close>

datatype default_handle = DefaultSAPAI

definition createDefaultSAPAI :: "runtime \<Rightarrow> error + default_handle" where
  "createDefaultSAPAI rt = Inr DefaultSAPAI"

definition default_createModel ::
  "runtime \<Rightarrow> string \<Rightarrow> SAPAISettings option \<Rightarrow> error + SAPAIChatLanguageModel" where
  "default_createModel rt mid s =
     (case process_env rt ''SAP_AI_TOKEN'' of
        None \<Rightarrow> Inl (Error defaultInstanceMessage)
      | Some tok \<Rightarrow>
          (if tok = [] then Inl (Error defaultInstanceMessage)
           else provider_call (createSAPAIProviderSync tok noOptions) False mid s))"

definition default_provider_call ::
  "runtime \<Rightarrow> bool \<Rightarrow> string \<Rightarrow> SAPAISettings option \<Rightarrow> error + SAPAIChatLanguageModel"
where
  "default_provider_call rt new_target mid s = default_createModel rt mid s"

definition default_provider_chat ::
  "runtime \<Rightarrow> string \<Rightarrow> SAPAISettings option \<Rightarrow> error + SAPAIChatLanguageModel" where
  "default_provider_chat rt mid s = default_createModel rt mid s"


section \<open>Example inputs\<close>

text \<open>
  A service key as text and as an object, a token response, and \<open>JSON.parse\<close> on the texts
  the examples give it: the two JSON texts below and \<open>null\<close> parse to their values; the other
  texts the examples pass (the empty text and \<open>not json\<close>) are not JSON.
\<close>

definition exampleKeyText :: string where
  "exampleKeyText =
     ''{\"serviceurls\":{\"AI_API_URL\":\"https://api.example\"},\"clientid\":\"id\",''
     @ ''\"clientsecret\":\"secret\",\"url\":\"https://auth.example\"}''"

definition exampleKey :: SAPAIServiceKey where
  "exampleKey =
     \<lparr> serviceurls = \<lparr> AI_API_URL = ''https://api.example'' \<rparr>,
       clientid = ''id'', clientsecret = ''secret'', url = ''https://auth.example'',
       identityzone = None, identityzoneid = None, appname = None, credential_type = None \<rparr>"

definition exampleTokenBody :: string where
  "exampleTokenBody = ''{\"access_token\":\"oauth-token\"}''"

definition exampleParse :: "string \<Rightarrow> jsval option" where
  "exampleParse s =
     (if s = exampleKeyText then Some (key_value exampleKey)
      else if s = exampleTokenBody then Some (JObj [(''access_token'', JStr ''oauth-token'')])
      else if s = ''null'' then Some JNull
      else None)"

definition fetchGranted :: fetchfn where
  "fetchGranted rq =
     Inr \<lparr> ok = True, status = 200, statusText = ''OK'', responseText = exampleTokenBody \<rparr>"

definition fetchDenied :: fetchfn where
  "fetchDenied rq =
     Inr \<lparr> ok = False, status = 401, statusText = ''Unauthorized'',
           responseText = ''bad credentials'' \<rparr>"

text \<open>Three platforms: the variable set, not set, and set to the empty string.\<close>

definition rtEnv :: runtime where
  "rtEnv =
     \<lparr> JSON_parse = exampleParse,
       process_env = [''SAP_AI_TOKEN'' \<mapsto> ''env-token''],
       global_fetch = fetchGranted \<rparr>"

definition rtNoEnv :: runtime where
  "rtNoEnv =
     \<lparr> JSON_parse = exampleParse, process_env = Map.empty, global_fetch = fetchGranted \<rparr>"

definition rtEmptyEnv :: runtime where
  "rtEmptyEnv =
     \<lparr> JSON_parse = exampleParse,
       process_env = [''SAP_AI_TOKEN'' \<mapsto> []],
       global_fetch = fetchGranted \<rparr>"

definition rtDenied :: runtime where
  "rtDenied =
     \<lparr> JSON_parse = exampleParse, process_env = Map.empty, global_fetch = fetchDenied \<rparr>"


text \<open>Settings bags: the credentials in their combinations, and the endpoint options.\<close>

definition optsTokenAndKey :: SAPAIProviderSettings where
  "optsTokenAndKey =
     noOptions\<lparr> token := Some ''explicit-token'', serviceKey := Some (KeyObject exampleKey) \<rparr>"

definition optsKeyText :: SAPAIProviderSettings where
  "optsKeyText = noOptions\<lparr> serviceKey := Some (KeyText exampleKeyText) \<rparr>"

definition optsKeyObject :: SAPAIProviderSettings where
  "optsKeyObject = noOptions\<lparr> serviceKey := Some (KeyObject exampleKey) \<rparr>"

definition optsEmptyToken :: SAPAIProviderSettings where
  "optsEmptyToken = noOptions\<lparr> token := Some [] \<rparr>"

definition optsEmptyKey :: SAPAIProviderSettings where
  "optsEmptyKey = noOptions\<lparr> serviceKey := Some (KeyText []) \<rparr>"

definition optsBadKey :: SAPAIProviderSettings where
  "optsBadKey = noOptions\<lparr> serviceKey := Some (KeyText ''not json'') \<rparr>"

definition optsEndpoint :: SAPAIProviderSettings where
  "optsEndpoint =
     noOptions\<lparr> token := Some ''explicit-token'',
                 serviceKey := Some (KeyObject exampleKey),
                 baseURL := Some ''https://own.example/v2/'',
                 completionPath := Some ''/completion'',
                 resourceGroup := Some ''production'',
                 headers := Some [''Authorization'' \<mapsto> ''Basic abc'', ''X-Custom'' \<mapsto> ''1''] \<rparr>"

text \<open>
  Provider-level default settings and a per-call bag: one model parameter each, one
  top-level key in both and one in the defaults only.
\<close>

definition exampleDefaults :: SAPAISettings where
  "exampleDefaults =
     \<lparr> modelParams = Some [''temperature'' \<mapsto> JNum ''0.7''],
       others = [''mode'' \<mapsto> JStr ''default-mode'', ''safe'' \<mapsto> JBool True] \<rparr>"

definition exampleCallSettings :: SAPAISettings where
  "exampleCallSettings =
     \<lparr> modelParams = Some [''maxTokens'' \<mapsto> JNum ''100''],
       others = [''mode'' \<mapsto> JStr ''call-mode''] \<rparr>"

definition optsDefaults :: SAPAIProviderSettings where
  "optsDefaults =
     noOptions\<lparr> token := Some ''explicit-token'', defaultSettings := Some exampleDefaults \<rparr>"

section \<open>Map override\<close>

lemma map_add_twice: "(f ++ g) ++ g = f ++ g"
  by (rule ext) (simp add: map_add_def split: option.splits)

lemma map_add_lookup: "(f ++ g) k = (case g k of Some v \<Rightarrow> Some v | None \<Rightarrow> f k)"
  by (simp add: map_add_def split: option.splits)

section \<open>Empty credentials\<close>

lemma token_update_fields:
  "parseServiceKey rt (options\<lparr>token := x\<rparr>) = parseServiceKey rt options"
  "determineBaseURL (options\<lparr>token := x\<rparr>) k = determineBaseURL options k"
  "determineAuthentication rt (options\<lparr>token := Some []\<rparr>) k
     = determineAuthentication rt (options\<lparr>token := None\<rparr>) k"
  by (simp_all add: parseServiceKey_def determineBaseURL_def determineAuthentication_def)

lemma key_update_fields:
  "parseServiceKey rt (options\<lparr>serviceKey := Some (KeyText [])\<rparr>)
     = parseServiceKey rt (options\<lparr>serviceKey := None\<rparr>)"
  "determineBaseURL (options\<lparr>serviceKey := x\<rparr>) k = determineBaseURL options k"
  "determineAuthentication rt (options\<lparr>serviceKey := x\<rparr>) k
     = determineAuthentication rt options k"
  by (simp_all add: parseServiceKey_def determineBaseURL_def determineAuthentication_def)

text \<open>
  C10. An empty-string credential is treated as absent. Provider creation with
  \<open>token = ""\<close> does and returns exactly what it does and returns with no token: the token
  is not used and the dispatch goes on to the service-key mode when the parsed key is
  truthy and to the \<open>SAP_AI_TOKEN\<close> fallback otherwise. Likewise creation with
  \<open>serviceKey = ""\<close> is creation with no service key: the empty text is never parsed.
\<close>

theorem empty_credentials_are_absent:
  "createSAPAIProvider rt (options\<lparr>token := Some []\<rparr>)
     = createSAPAIProvider rt (options\<lparr>token := None\<rparr>)
   \<and> createSAPAIProvider rt (options\<lparr>serviceKey := Some (KeyText [])\<rparr>)
     = createSAPAIProvider rt (options\<lparr>serviceKey := None\<rparr>)
   \<and> determineAuthentication rt (options\<lparr>token := Some []\<rparr>) k
     = (if truthy k then getOAuthToken rt k (fetch options)
        else ([EnvRead ''SAP_AI_TOKEN''],
              map_sum id JStr (loadApiKey rt None ''SAP_AI_TOKEN'' ''SAP AI Core'')))
   \<and> parseServiceKey rt (options\<lparr>serviceKey := Some (KeyText [])\<rparr>) = Inr JUndefined"
proof (intro conjI)
  show "createSAPAIProvider rt (options\<lparr>token := Some []\<rparr>)
     = createSAPAIProvider rt (options\<lparr>token := None\<rparr>)"
    by (simp add: createSAPAIProvider_def token_update_fields
        split: sum.splits prod.splits)
  show "createSAPAIProvider rt (options\<lparr>serviceKey := Some (KeyText [])\<rparr>)
     = createSAPAIProvider rt (options\<lparr>serviceKey := None\<rparr>)"
    by (simp add: createSAPAIProvider_def key_update_fields
        split: sum.splits prod.splits)
  show "determineAuthentication rt (options\<lparr>token := Some []\<rparr>) k
     = (if truthy k then getOAuthToken rt k (fetch options)
        else ([EnvRead ''SAP_AI_TOKEN''],
              map_sum id JStr (loadApiKey rt None ''SAP_AI_TOKEN'' ''SAP AI Core'')))"
    by (simp add: determineAuthentication_def)
  show "parseServiceKey rt (options\<lparr>serviceKey := Some (KeyText [])\<rparr>) = Inr JUndefined"
    by (simp add: parseServiceKey_def)
qed


section \<open>Credential resolution\<close>

lemma create_parse_fails:
  "parseServiceKey rt options = Inl e \<Longrightarrow> createSAPAIProvider rt options = ([], Inl e)"
  by (simp add: createSAPAIProvider_def)

lemma create_baseURL_fails:
  "parseServiceKey rt options = Inr k \<Longrightarrow> determineBaseURL options k = Inl e
   \<Longrightarrow> createSAPAIProvider rt options = ([], Inl e)"
  by (simp add: createSAPAIProvider_def)

lemma create_effects:
  "parseServiceKey rt options = Inr k \<Longrightarrow> determineBaseURL options k = Inr b
   \<Longrightarrow> fst (createSAPAIProvider rt options) = fst (determineAuthentication rt options k)"
  by (simp add: createSAPAIProvider_def split: prod.splits sum.splits)

lemma create_token:
  "parseServiceKey rt options = Inr k \<Longrightarrow> determineBaseURL options k = Inr b
   \<Longrightarrow> map_sum id cl_authToken (snd (createSAPAIProvider rt options))
       = snd (determineAuthentication rt options k)"
  by (simp add: createSAPAIProvider_def split: prod.splits sum.splits)

lemma create_succeeds:
  assumes "snd (createSAPAIProvider rt options) = Inr p"
  obtains k where "parseServiceKey rt options = Inr k"
    and "determineBaseURL options k = Inr (cl_baseURL p)"
    and "snd (determineAuthentication rt options k) = Inr (cl_authToken p)"
    and "cl_deploymentId p
           = (case deploymentId options of None \<Rightarrow> defaultDeploymentId | Some d \<Rightarrow> d)"
    and "cl_resourceGroup p = (case resourceGroup options of None \<Rightarrow> ''default'' | Some g \<Rightarrow> g)"
    and "cl_completionPath p = completionPath options"
    and "cl_headers p = headers options"
    and "cl_fetch p = fetch options"
    and "cl_defaultSettings p = defaultSettings options"
  using assms
  by (auto simp add: createSAPAIProvider_def split: prod.splits sum.splits)

lemma oauth_effects:
  "fst (getOAuthToken rt k f) = [] \<or> (\<exists>rq. fst (getOAuthToken rt k f) = [NetworkCall rq])"
  by (simp add: getOAuthToken_def Let_def split: sum.splits)

lemma auth_explicit_token:
  "token options = Some t \<Longrightarrow> t \<noteq> []
   \<Longrightarrow> determineAuthentication rt options k = ([], Inr (JStr t))"
  by (simp add: determineAuthentication_def)

lemma auth_no_token:
  "token options = None \<or> token options = Some []
   \<Longrightarrow> determineAuthentication rt options k
       = (if truthy k then getOAuthToken rt k (fetch options)
          else ([EnvRead ''SAP_AI_TOKEN''],
                map_sum id JStr (loadApiKey rt None ''SAP_AI_TOKEN'' ''SAP AI Core'')))"
  by (auto simp add: determineAuthentication_def)

lemma token_cases:
  obtains (present) t where "token options = Some t" "t \<noteq> []"
  | (absent) "token options = None \<or> token options = Some []"
  by (cases "token options") auto

lemma network_call_only_oauth:
  assumes "NetworkCall rq \<in> set (fst (createSAPAIProvider rt options))"
  shows "(token options = None \<or> token options = Some [])
         \<and> (\<exists>k. parseServiceKey rt options = Inr k \<and> truthy k)"
proof (cases "parseServiceKey rt options")
  case (Inl e) with assms show ?thesis by (simp add: create_parse_fails)
next
  case (Inr k)
  show ?thesis
  proof (cases "determineBaseURL options k")
    case (Inl e) with Inr assms show ?thesis by (simp add: create_baseURL_fails)
  next
    case b: (Inr b)
    from assms have n: "NetworkCall rq \<in> set (fst (determineAuthentication rt options k))"
      by (simp add: create_effects [OF Inr b])
    show ?thesis
    proof (cases rule: token_cases [of options])
      case (present t) with n show ?thesis by (simp add: auth_explicit_token)
    next
      case absent
      with n have "truthy k" by (auto simp add: auth_no_token split: if_splits)
      with absent Inr show ?thesis by simp
    qed
  qed
qed

lemma env_read_only_fallback:
  assumes "EnvRead v \<in> set (fst (createSAPAIProvider rt options))"
  shows "(token options = None \<or> token options = Some [])
         \<and> (\<exists>k. parseServiceKey rt options = Inr k \<and> \<not> truthy k)"
proof (cases "parseServiceKey rt options")
  case (Inl e) with assms show ?thesis by (simp add: create_parse_fails)
next
  case (Inr k)
  show ?thesis
  proof (cases "determineBaseURL options k")
    case (Inl e) with Inr assms show ?thesis by (simp add: create_baseURL_fails)
  next
    case b: (Inr b)
    from assms have n: "EnvRead v \<in> set (fst (determineAuthentication rt options k))"
      by (simp add: create_effects [OF Inr b])
    show ?thesis
    proof (cases rule: token_cases [of options])
      case (present t) with n show ?thesis by (simp add: auth_explicit_token)
    next
      case absent
      have "\<not> truthy k"
      proof
        assume "truthy k"
        with n absent have "EnvRead v \<in> set (fst (getOAuthToken rt k (fetch options)))"
          by (simp add: auth_no_token)
        with oauth_effects [of rt k "fetch options"] show False by auto
      qed
      with absent Inr show ?thesis by simp
    qed
  qed
qed

text \<open>The example inputs, evaluated.\<close>

lemma example_key_parse:
  "parseServiceKey rt optsTokenAndKey = Inr (key_value exampleKey)"
  "parseServiceKey rtEnv optsKeyText = Inr (key_value exampleKey)"
  "parseServiceKey rt optsKeyObject = Inr (key_value exampleKey)"
  "parseServiceKey rt noOptions = Inr JUndefined"
  by (simp_all add: parseServiceKey_def optsTokenAndKey_def optsKeyText_def optsKeyObject_def
      noOptions_def rtEnv_def exampleParse_def exampleKeyText_def)

lemma example_key_baseURL:
  "determineBaseURL optsTokenAndKey (key_value exampleKey) = Inr ''https://api.example/v2''"
  "determineBaseURL optsKeyText (key_value exampleKey) = Inr ''https://api.example/v2''"
  "determineBaseURL optsKeyObject (key_value exampleKey) = Inr ''https://api.example/v2''"
  "determineBaseURL noOptions JUndefined = Inr defaultBaseURL"
  by (simp_all add: determineBaseURL_def optsTokenAndKey_def optsKeyText_def optsKeyObject_def
      noOptions_def key_value_def exampleKey_def withoutTrailingSlash_def bindE_def opt_prop_def)

lemma example_token_request:
  "tokenRequest (key_value exampleKey)
     = Inr \<lparr> req_url = ''https://auth.example/oauth/token'', req_method = ''POST'',
             req_headers = [(''Content-Type'', ''application/x-www-form-urlencoded''),
                            (''Authorization'', ''Basic '' @ base64 ''id:secret'')],
             req_body = ''grant_type=client_credentials'' \<rparr>"
  by (simp add: tokenRequest_def key_value_def exampleKey_def bindE_def opt_prop_def)

lemma example_oauth_granted:
  "snd (getOAuthToken rtEnv (key_value exampleKey) None) = Inr (JStr ''oauth-token'')"
  by (simp add: getOAuthToken_def example_token_request rtEnv_def fetchGranted_def bindE_def
      readToken_def exampleParse_def exampleTokenBody_def exampleKeyText_def)

text \<open>
  C1, as the code has it. For every settings bag with a non-empty token string, provider
  creation calls no \<open>fetch\<close> and reads no environment variable, and the provider it returns
  holds that token verbatim, also when a service key is supplied; it returns one whenever
  the service key (if any) parses and the base URL resolves. A call of \<open>fetch\<close> (the OAuth
  exchange) happens only when the token is absent or empty and the parsed service key is
  truthy, and \<open>SAP_AI_TOKEN\<close> is read only when the token is absent or empty and there is no
  truthy parsed service key. With the token absent or empty, creation does what
  \<open>getOAuthToken\<close> does on a truthy parsed key, and reads \<open>SAP_AI_TOKEN\<close> otherwise.
\<close>

theorem credential_priority:
  "(token options = Some t \<and> t \<noteq> [] \<longrightarrow>
      fst (createSAPAIProvider rt options) = []
      \<and> (\<forall>p. snd (createSAPAIProvider rt options) = Inr p \<longrightarrow> cl_authToken p = JStr t)
      \<and> (parseServiceKey rt options = Inr k \<and> determineBaseURL options k = Inr b \<longrightarrow>
           map_sum id cl_authToken (snd (createSAPAIProvider rt options)) = Inr (JStr t)))
   \<and> (NetworkCall rq \<in> set (fst (createSAPAIProvider rt options)) \<longrightarrow>
        (token options = None \<or> token options = Some [])
        \<and> (\<exists>k'. parseServiceKey rt options = Inr k' \<and> truthy k'))
   \<and> (EnvRead v \<in> set (fst (createSAPAIProvider rt options)) \<longrightarrow>
        (token options = None \<or> token options = Some [])
        \<and> (\<exists>k'. parseServiceKey rt options = Inr k' \<and> \<not> truthy k'))
   \<and> ((token options = None \<or> token options = Some [])
        \<and> parseServiceKey rt options = Inr k \<and> determineBaseURL options k = Inr b \<longrightarrow>
        fst (createSAPAIProvider rt options)
          = (if truthy k then fst (getOAuthToken rt k (fetch options))
             else [EnvRead ''SAP_AI_TOKEN''])
        \<and> map_sum id cl_authToken (snd (createSAPAIProvider rt options))
          = (if truthy k then snd (getOAuthToken rt k (fetch options))
             else map_sum id JStr (loadApiKey rt None ''SAP_AI_TOKEN'' ''SAP AI Core'')))"
proof (intro conjI impI allI)
  assume t: "token options = Some t \<and> t \<noteq> []"
  show "fst (createSAPAIProvider rt options) = []"
  proof (cases "parseServiceKey rt options")
    case (Inl e) then show ?thesis by (simp add: create_parse_fails)
  next
    case (Inr k')
    show ?thesis
    proof (cases "determineBaseURL options k'")
      case (Inl e) with Inr show ?thesis by (simp add: create_baseURL_fails)
    next
      case b: (Inr b')
      from t show ?thesis by (simp add: create_effects [OF Inr b] auth_explicit_token)
    qed
  qed
next
  fix p
  assume t: "token options = Some t \<and> t \<noteq> []"
    and p: "snd (createSAPAIProvider rt options) = Inr p"
  from p obtain k' where "snd (determineAuthentication rt options k') = Inr (cl_authToken p)"
    by (rule create_succeeds)
  with t show "cl_authToken p = JStr t" by (simp add: auth_explicit_token)
next
  assume t: "token options = Some t \<and> t \<noteq> []"
    and kb: "parseServiceKey rt options = Inr k \<and> determineBaseURL options k = Inr b"
  then show "map_sum id cl_authToken (snd (createSAPAIProvider rt options)) = Inr (JStr t)"
    by (simp add: create_token [of rt options k b] auth_explicit_token)
next
  assume "NetworkCall rq \<in> set (fst (createSAPAIProvider rt options))"
  then show "token options = None \<or> token options = Some []"
    and "\<exists>k'. parseServiceKey rt options = Inr k' \<and> truthy k'"
    using network_call_only_oauth by blast+
next
  assume "EnvRead v \<in> set (fst (createSAPAIProvider rt options))"
  then show "token options = None \<or> token options = Some []"
    and "\<exists>k'. parseServiceKey rt options = Inr k' \<and> \<not> truthy k'"
    using env_read_only_fallback by blast+
next
  assume a: "(token options = None \<or> token options = Some [])
        \<and> parseServiceKey rt options = Inr k \<and> determineBaseURL options k = Inr b"
  then show "fst (createSAPAIProvider rt options)
          = (if truthy k then fst (getOAuthToken rt k (fetch options))
             else [EnvRead ''SAP_AI_TOKEN''])"
    by (simp add: create_effects [of rt options k b] auth_no_token)
  from a show "map_sum id cl_authToken (snd (createSAPAIProvider rt options))
          = (if truthy k then snd (getOAuthToken rt k (fetch options))
             else map_sum id JStr (loadApiKey rt None ''SAP_AI_TOKEN'' ''SAP AI Core''))"
    by (simp add: create_token [of rt options k b] auth_no_token)
qed

theorem credential_priority_witness:
  "fst (createSAPAIProvider rtDenied optsTokenAndKey) = []
   \<and> map_sum id cl_authToken (snd (createSAPAIProvider rtDenied optsTokenAndKey))
       = Inr (JStr ''explicit-token'')
   \<and> map_sum id cl_authToken (snd (createSAPAIProvider rtEnv optsKeyText))
       = Inr (JStr ''oauth-token'')
   \<and> fst (createSAPAIProvider rtEnv noOptions) = [EnvRead ''SAP_AI_TOKEN'']
   \<and> map_sum id cl_authToken (snd (createSAPAIProvider rtEnv noOptions))
       = Inr (JStr ''env-token'')"
proof -
  have t1: "token optsTokenAndKey = Some ''explicit-token'' \<and> ''explicit-token'' \<noteq> []"
    by (simp add: optsTokenAndKey_def noOptions_def)
  have t2: "token optsKeyText = None \<or> token optsKeyText = Some []"
    by (simp add: optsKeyText_def noOptions_def)
  have t3: "token noOptions = None \<or> token noOptions = Some []"
    by (simp add: noOptions_def)
  have f: "fetch optsKeyText = None" by (simp add: optsKeyText_def noOptions_def)
  have tr: "truthy (key_value exampleKey)" by (simp add: key_value_def)
  have env: "loadApiKey rtEnv None ''SAP_AI_TOKEN'' ''SAP AI Core'' = Inr ''env-token''"
    by (simp add: loadApiKey_def rtEnv_def)
  note a = credential_priority [where options = optsTokenAndKey and t = "''explicit-token''"
      and rt = rtDenied and k = "key_value exampleKey" and b = "''https://api.example/v2''"]
  note b = credential_priority [where options = optsKeyText and rt = rtEnv
      and k = "key_value exampleKey" and b = "''https://api.example/v2''"]
  note c = credential_priority [where options = noOptions and rt = rtEnv
      and k = JUndefined and b = defaultBaseURL]
  from a t1 have "fst (createSAPAIProvider rtDenied optsTokenAndKey) = []"
    and "map_sum id cl_authToken (snd (createSAPAIProvider rtDenied optsTokenAndKey))
       = Inr (JStr ''explicit-token'')"
    by (simp_all add: example_key_parse example_key_baseURL)
  moreover from b t2 tr have "map_sum id cl_authToken (snd (createSAPAIProvider rtEnv optsKeyText))
       = Inr (JStr ''oauth-token'')"
    by (simp add: example_key_parse example_key_baseURL f example_oauth_granted)
  moreover from c t3 have "fst (createSAPAIProvider rtEnv noOptions) = [EnvRead ''SAP_AI_TOKEN'']"
    and "map_sum id cl_authToken (snd (createSAPAIProvider rtEnv noOptions))
       = Inr (JStr ''env-token'')"
    by (simp_all add: example_key_parse example_key_baseURL env)
  ultimately show ?thesis by simp
qed

text \<open>
  C1 as stated fails at the empty token: the bag supplies the token string \<open>""\<close> and no
  service key, and creation reads \<open>SAP_AI_TOKEN\<close> and uses its value.
\<close>

theorem empty_token_falls_to_environment:
  "token optsEmptyToken = Some []
   \<and> fst (createSAPAIProvider rtEnv optsEmptyToken) = [EnvRead ''SAP_AI_TOKEN'']
   \<and> map_sum id cl_authToken (snd (createSAPAIProvider rtEnv optsEmptyToken))
       = Inr (JStr ''env-token'')"
  by (simp add: createSAPAIProvider_def parseServiceKey_def determineBaseURL_def
      determineAuthentication_def optsEmptyToken_def noOptions_def withoutTrailingSlash_def
      loadApiKey_def rtEnv_def)

section \<open>Malformed service key\<close>

text \<open>
  C4, as the code has it. For every non-empty string supplied as \<open>serviceKey\<close> that is not
  valid JSON, provider creation fails with the error whose message is
  \<open>Invalid service key JSON format\<close> (the spec's \<open>ConfigurationError\<close>; the source throws the
  plain \<open>Error\<close>), and it has called no \<open>fetch\<close> and read no environment variable.
\<close>

theorem malformed_service_key_rejected:
  "serviceKey options = Some (KeyText s) \<Longrightarrow> s \<noteq> [] \<Longrightarrow> JSON_parse rt s = None
   \<Longrightarrow> createSAPAIProvider rt options = ([], Inl (Error ''Invalid service key JSON format''))"
  by (simp add: createSAPAIProvider_def parseServiceKey_def)

theorem malformed_service_key_rejected_witness:
  "createSAPAIProvider rtEnv optsBadKey = ([], Inl (Error ''Invalid service key JSON format''))"
proof -
  have "serviceKey optsBadKey = Some (KeyText ''not json'')"
    by (simp add: optsBadKey_def noOptions_def)
  moreover have "''not json'' \<noteq> []" by simp
  moreover have "JSON_parse rtEnv ''not json'' = None"
    by (simp add: rtEnv_def exampleParse_def exampleKeyText_def exampleTokenBody_def)
  ultimately show ?thesis by (rule malformed_service_key_rejected)
qed

text \<open>
  C4 as stated fails at the empty string: it is not valid JSON, yet it is never parsed, and
  creation goes on as with no service key and returns a provider.
\<close>

theorem empty_service_key_not_parsed:
  "serviceKey optsEmptyKey = Some (KeyText [])
   \<and> JSON_parse rtEnv [] = None
   \<and> fst (createSAPAIProvider rtEnv optsEmptyKey) = [EnvRead ''SAP_AI_TOKEN'']
   \<and> map_sum id cl_authToken (snd (createSAPAIProvider rtEnv optsEmptyKey))
       = Inr (JStr ''env-token'')"
  by (simp add: createSAPAIProvider_def parseServiceKey_def determineBaseURL_def
      determineAuthentication_def optsEmptyKey_def noOptions_def withoutTrailingSlash_def
      loadApiKey_def rtEnv_def exampleParse_def exampleKeyText_def exampleTokenBody_def)

section \<open>The token endpoint's response\<close>

lemma show_nat_401: "show_nat 401 = ''401''"
  by code_simp

lemma oauth_call:
  "tokenRequest k = Inr rq \<Longrightarrow> (case f of Some g \<Rightarrow> g | None \<Rightarrow> global_fetch rt) rq = Inr r
   \<Longrightarrow> getOAuthToken rt k f = ([NetworkCall rq], readToken rt r)"
  by (simp add: getOAuthToken_def Let_def bindE_def)

text \<open>
  C5. In the service-key mode (token absent or empty, parsed key truthy, base URL and token
  request built), provider creation calls \<open>fetch\<close> once, with the token request. When the
  response is not \<open>ok\<close>, creation fails with the error (the spec's \<open>AuthenticationError\<close>;
  the source throws the plain \<open>Error\<close>) whose message is
  \<open>Failed to get OAuth access token: \<close> followed by the status code, a space, the status
  text, a line feed and the body text; for status 401 the message contains \<open>401\<close>. When the
  response is \<open>ok\<close> and its body is JSON, the token of the provider is the \<open>access_token\<close>
  property of the body.
\<close>

theorem oauth_token_exchange:
  assumes "token options = None \<or> token options = Some []"
    and "parseServiceKey rt options = Inr k" and "truthy k"
    and "determineBaseURL options k = Inr b"
    and "tokenRequest k = Inr rq"
    and "(case fetch options of Some f \<Rightarrow> f | None \<Rightarrow> global_fetch rt) rq = Inr r"
  shows "fst (createSAPAIProvider rt options) = [NetworkCall rq]
    \<and> (\<not> ok r \<longrightarrow>
         snd (createSAPAIProvider rt options)
           = Inl (Error (''Failed to get OAuth access token: '' @ show_nat (status r) @ '' ''
                         @ statusText r @ [CHR 0x0A] @ responseText r)))
    \<and> (\<not> ok r \<and> status r = 401 \<longrightarrow>
         (\<exists>m. snd (createSAPAIProvider rt options) = Inl (Error m) \<and> sublist ''401'' m))
    \<and> (ok r \<and> JSON_parse rt (responseText r) = Some body
         \<and> get_prop body ''access_token'' = Inr a \<longrightarrow>
         map_sum id cl_authToken (snd (createSAPAIProvider rt options)) = Inr a)"
proof -
  have auth: "determineAuthentication rt options k = ([NetworkCall rq], readToken rt r)"
    using assms(1,3) by (simp add: auth_no_token oauth_call [OF assms(5,6)])
  have eff: "fst (createSAPAIProvider rt options) = [NetworkCall rq]"
    by (simp add: create_effects [OF assms(2,4)] auth)
  have tok: "map_sum id cl_authToken (snd (createSAPAIProvider rt options)) = readToken rt r"
    by (simp add: create_token [OF assms(2,4)] auth)
  have denied: "snd (createSAPAIProvider rt options)
           = Inl (Error (''Failed to get OAuth access token: '' @ show_nat (status r) @ '' ''
                         @ statusText r @ [CHR 0x0A] @ responseText r))" if "\<not> ok r"
  proof -
    from that tok have "map_sum id cl_authToken (snd (createSAPAIProvider rt options))
        = Inl (Error (''Failed to get OAuth access token: '' @ show_nat (status r) @ '' ''
                         @ statusText r @ [CHR 0x0A] @ responseText r))"
      by (simp add: readToken_def)
    then show ?thesis by (cases "snd (createSAPAIProvider rt options)") simp_all
  qed
  have s401: "\<exists>m. snd (createSAPAIProvider rt options) = Inl (Error m) \<and> sublist ''401'' m"
    if "\<not> ok r \<and> status r = 401"
  proof -
    have "sublist ''401'' (''Failed to get OAuth access token: '' @ ''401'' @ '' ''
                         @ statusText r @ [CHR 0x0A] @ responseText r)"
      by (rule sublist_appendI)
    with that denied show ?thesis by (simp add: show_nat_401)
  qed
  have granted: "map_sum id cl_authToken (snd (createSAPAIProvider rt options)) = Inr a"
    if "ok r \<and> JSON_parse rt (responseText r) = Some body
         \<and> get_prop body ''access_token'' = Inr a"
    using that tok by (simp add: readToken_def)
  from eff denied s401 granted show ?thesis by blast
qed

theorem oauth_token_exchange_witness:
  "snd (createSAPAIProvider rtDenied optsKeyObject)
     = Inl (Error (''Failed to get OAuth access token: 401 Unauthorized''
                   @ [CHR 0x0A] @ ''bad credentials''))
   \<and> (\<exists>m. snd (createSAPAIProvider rtDenied optsKeyObject) = Inl (Error m)
            \<and> sublist ''401'' m)
   \<and> map_sum id cl_authToken (snd (createSAPAIProvider rtEnv optsKeyText))
       = Inr (JStr ''oauth-token'')"
proof -
  let ?rq = "\<lparr> req_url = ''https://auth.example/oauth/token'', req_method = ''POST'',
             req_headers = [(''Content-Type'', ''application/x-www-form-urlencoded''),
                            (''Authorization'', ''Basic '' @ base64 ''id:secret'')],
             req_body = ''grant_type=client_credentials'' \<rparr>"
  let ?denied = "\<lparr> ok = False, status = 401, statusText = ''Unauthorized'',
                   responseText = ''bad credentials'' \<rparr>"
  let ?granted = "\<lparr> ok = True, status = 200, statusText = ''OK'',
                    responseText = exampleTokenBody \<rparr>"
  have tr: "truthy (key_value exampleKey)" by (simp add: key_value_def)
  have t1: "token optsKeyObject = None \<or> token optsKeyObject = Some []"
    by (simp add: optsKeyObject_def noOptions_def)
  have f1: "(case fetch optsKeyObject of Some f \<Rightarrow> f | None \<Rightarrow> global_fetch rtDenied) ?rq
              = Inr ?denied"
    by (simp add: optsKeyObject_def noOptions_def rtDenied_def fetchDenied_def)
  have t2: "token optsKeyText = None \<or> token optsKeyText = Some []"
    by (simp add: optsKeyText_def noOptions_def)
  have f2: "(case fetch optsKeyText of Some f \<Rightarrow> f | None \<Rightarrow> global_fetch rtEnv) ?rq
              = Inr ?granted"
    by (simp add: optsKeyText_def noOptions_def rtEnv_def fetchGranted_def)
  have body: "JSON_parse rtEnv exampleTokenBody
                = Some (JObj [(''access_token'', JStr ''oauth-token'')])"
    by (simp add: rtEnv_def exampleParse_def exampleTokenBody_def exampleKeyText_def)
  note d = oauth_token_exchange [OF t1 example_key_parse(3) tr example_key_baseURL(3)
      example_token_request f1]
  note g = oauth_token_exchange [OF t2 example_key_parse(2) tr example_key_baseURL(2)
      example_token_request f2,
      where body = "JObj [(''access_token'', JStr ''oauth-token'')]"
        and a = "JStr ''oauth-token''"]
  from d have "snd (createSAPAIProvider rtDenied optsKeyObject)
     = Inl (Error (''Failed to get OAuth access token: 401 Unauthorized''
                   @ [CHR 0x0A] @ ''bad credentials''))"
    by (simp add: show_nat_401)
  moreover have "\<not> ok ?denied \<and> status ?denied = 401" by simp
  with d have "\<exists>m. snd (createSAPAIProvider rtDenied optsKeyObject) = Inl (Error m)
            \<and> sublist ''401'' m"
    by blast
  moreover from g body have "map_sum id cl_authToken (snd (createSAPAIProvider rtEnv optsKeyText))
       = Inr (JStr ''oauth-token'')"
    by simp
  ultimately show ?thesis by blast
qed

section \<open>The completion URL\<close>

lemma call_without_new: "provider_call p False mid s = Inr (createModel p mid s)"
  by (simp add: provider_call_def)

lemma completion_url_of_closure:
  "cfg_baseURL (config (createModel p mid s))
     = (case cl_completionPath p of
          Some cp \<Rightarrow> cl_baseURL p @ cp
        | None \<Rightarrow>
            cl_baseURL p @ ''/inference/deployments/'' @ cl_deploymentId p @ ''/v2/completion'')"
  by (simp add: createModel_def)

text \<open>
  C2. For every provider that creation returns, the URL handed to the model collaborator
  is \<open>{baseURL}{completionPath}\<close> when \<open>completionPath\<close> is supplied, and otherwise
  \<open>{baseURL}/inference/deployments/{deploymentId}/v2/completion\<close>, where \<open>deploymentId\<close> is
  the supplied one or \<open>d65d81e7c077e583\<close>; the call of the provider and its \<open>chat\<close> method
  both give that model. The same holds for the synchronous variant.
\<close>

theorem completion_url:
  "(snd (createSAPAIProvider rt options) = Inr p \<longrightarrow>
      cfg_baseURL (config (createModel p mid s))
        = (case completionPath options of
             Some cp \<Rightarrow> cl_baseURL p @ cp
           | None \<Rightarrow>
               cl_baseURL p @ ''/inference/deployments/''
               @ (case deploymentId options of Some d \<Rightarrow> d | None \<Rightarrow> ''d65d81e7c077e583'')
               @ ''/v2/completion'')
      \<and> provider_call p False mid s = Inr (createModel p mid s)
      \<and> provider_chat p mid s = createModel p mid s)
   \<and> cfg_baseURL (config (createModel (createSAPAIProviderSync tok options) mid s))
        = (case completionPath options of
             Some cp \<Rightarrow> cl_baseURL (createSAPAIProviderSync tok options) @ cp
           | None \<Rightarrow>
               cl_baseURL (createSAPAIProviderSync tok options) @ ''/inference/deployments/''
               @ (case deploymentId options of Some d \<Rightarrow> d | None \<Rightarrow> ''d65d81e7c077e583'')
               @ ''/v2/completion'')"
proof (intro conjI impI)
  assume p: "snd (createSAPAIProvider rt options) = Inr p"
  from p show "cfg_baseURL (config (createModel p mid s))
        = (case completionPath options of
             Some cp \<Rightarrow> cl_baseURL p @ cp
           | None \<Rightarrow>
               cl_baseURL p @ ''/inference/deployments/''
               @ (case deploymentId options of Some d \<Rightarrow> d | None \<Rightarrow> ''d65d81e7c077e583'')
               @ ''/v2/completion'')"
    by (rule create_succeeds)
      (simp add: completion_url_of_closure defaultDeploymentId_def split: option.splits)
  show "provider_call p False mid s = Inr (createModel p mid s)"
    by (rule call_without_new)
  show "provider_chat p mid s = createModel p mid s"
    by (simp add: provider_chat_def)
next
  show "cfg_baseURL (config (createModel (createSAPAIProviderSync tok options) mid s))
        = (case completionPath options of
             Some cp \<Rightarrow> cl_baseURL (createSAPAIProviderSync tok options) @ cp
           | None \<Rightarrow>
               cl_baseURL (createSAPAIProviderSync tok options) @ ''/inference/deployments/''
               @ (case deploymentId options of Some d \<Rightarrow> d | None \<Rightarrow> ''d65d81e7c077e583'')
               @ ''/v2/completion'')"
    by (simp add: completion_url_of_closure createSAPAIProviderSync_def defaultDeploymentId_def
        split: option.splits)
qed

lemma example_endpoint_created:
  "snd (createSAPAIProvider rt optsEndpoint)
     = Inr \<lparr> cl_baseURL = ''https://own.example/v2'',
             cl_authToken = JStr ''explicit-token'',
             cl_deploymentId = defaultDeploymentId,
             cl_resourceGroup = ''production'',
             cl_completionPath = Some ''/completion'',
             cl_headers = Some [''Authorization'' \<mapsto> ''Basic abc'', ''X-Custom'' \<mapsto> ''1''],
             cl_fetch = None,
             cl_defaultSettings = None \<rparr>"
  by (simp add: createSAPAIProvider_def parseServiceKey_def determineBaseURL_def
      determineAuthentication_def optsEndpoint_def noOptions_def withoutTrailingSlash_def
      key_value_def)

lemma example_token_and_key_created:
  "snd (createSAPAIProvider rt optsTokenAndKey)
     = Inr \<lparr> cl_baseURL = ''https://api.example/v2'',
             cl_authToken = JStr ''explicit-token'',
             cl_deploymentId = defaultDeploymentId,
             cl_resourceGroup = ''default'',
             cl_completionPath = None,
             cl_headers = None,
             cl_fetch = None,
             cl_defaultSettings = None \<rparr>"
  by (simp add: createSAPAIProvider_def example_key_parse example_key_baseURL
      determineAuthentication_def)
    (simp add: optsTokenAndKey_def noOptions_def)

lemma example_environment_created:
  "snd (createSAPAIProvider rtEnv noOptions)
     = Inr \<lparr> cl_baseURL = defaultBaseURL,
             cl_authToken = JStr ''env-token'',
             cl_deploymentId = defaultDeploymentId,
             cl_resourceGroup = ''default'',
             cl_completionPath = None,
             cl_headers = None,
             cl_fetch = None,
             cl_defaultSettings = None \<rparr>"
  by (simp add: createSAPAIProvider_def example_key_parse example_key_baseURL
      determineAuthentication_def loadApiKey_def)
    (simp add: noOptions_def rtEnv_def)

theorem completion_url_witness:
  "map_sum id (\<lambda>p. cfg_baseURL (config (createModel p ''gpt-4o'' None)))
     (snd (createSAPAIProvider rtDenied optsEndpoint))
     = Inr ''https://own.example/v2/completion''
   \<and> map_sum id (\<lambda>p. cfg_baseURL (config (createModel p ''gpt-4o'' None)))
     (snd (createSAPAIProvider rtDenied optsTokenAndKey))
     = Inr ''https://api.example/v2/inference/deployments/d65d81e7c077e583/v2/completion''"
proof -
  obtain p where p: "snd (createSAPAIProvider rtDenied optsEndpoint) = Inr p"
    and bp: "cl_baseURL p = ''https://own.example/v2''"
    by (simp add: example_endpoint_created)
  obtain q where q: "snd (createSAPAIProvider rtDenied optsTokenAndKey) = Inr q"
    and bq: "cl_baseURL q = ''https://api.example/v2''"
    by (simp add: example_token_and_key_created)
  have cp: "completionPath optsEndpoint = Some ''/completion''"
    by (simp add: optsEndpoint_def noOptions_def)
  have cq: "completionPath optsTokenAndKey = None \<and> deploymentId optsTokenAndKey = None"
    by (simp add: optsTokenAndKey_def noOptions_def)
  from completion_url [of rtDenied optsEndpoint p "''gpt-4o''" None] p bp cp
  have "cfg_baseURL (config (createModel p ''gpt-4o'' None)) = ''https://own.example/v2/completion''"
    by simp
  moreover from completion_url [of rtDenied optsTokenAndKey q "''gpt-4o''" None] q bq cq
  have "cfg_baseURL (config (createModel q ''gpt-4o'' None))
    = ''https://api.example/v2/inference/deployments/d65d81e7c077e583/v2/completion''"
    by simp
  ultimately show ?thesis using p q by simp
qed

section \<open>The base URL\<close>

lemma baseURL_explicit:
  "baseURL options = Some u
   \<Longrightarrow> determineBaseURL options k
       = Inr (if u \<noteq> [] \<and> last u = CHR ''/'' then butlast u else u)"
  by (simp add: determineBaseURL_def withoutTrailingSlash_def)

lemma baseURL_absent:
  "baseURL options = None
   \<Longrightarrow> determineBaseURL options k
       = (if truthy k then
            bindE (bindE (bindE (get_prop k ''serviceurls'') (\<lambda>su. get_prop su ''AI_API_URL''))
                         toStr)
                  (\<lambda>u. Inr (u @ ''/v2''))
          else Inr defaultBaseURL)"
  by (simp add: determineBaseURL_def withoutTrailingSlash_def)

lemma baseURL_of_key_object:
  "baseURL options = None
   \<Longrightarrow> determineBaseURL options (key_value key) = Inr (AI_API_URL (serviceurls key) @ ''/v2'')"
  by (simp add: determineBaseURL_def withoutTrailingSlash_def key_value_def bindE_def)

text \<open>
  C3. For every provider that creation returns, the base URL is: the supplied \<open>baseURL\<close>
  without its trailing slash, whether or not there is a service key; otherwise, when the
  parsed service key is truthy, the \<open>AI_API_URL\<close> of its \<open>serviceurls\<close> followed by \<open>/v2\<close> (for
  a service key object, that field of the object); otherwise the default
  \<open>https://api.ai.prod.eu-central-1.aws.ml.hana.ondemand.com/v2\<close>.
\<close>

theorem base_url_priority:
  assumes "snd (createSAPAIProvider rt options) = Inr p"
  shows "(baseURL options = Some u \<longrightarrow>
            cl_baseURL p = (if u \<noteq> [] \<and> last u = CHR ''/'' then butlast u else u))
    \<and> (baseURL options = None \<and> parseServiceKey rt options = Inr k \<and> truthy k \<longrightarrow>
         (\<exists>a. bindE (bindE (get_prop k ''serviceurls'') (\<lambda>su. get_prop su ''AI_API_URL'')) toStr
                = Inr a
              \<and> cl_baseURL p = a @ ''/v2''))
    \<and> (baseURL options = None \<and> serviceKey options = Some (KeyObject key) \<longrightarrow>
         cl_baseURL p = AI_API_URL (serviceurls key) @ ''/v2'')
    \<and> (baseURL options = None \<and> parseServiceKey rt options = Inr k \<and> \<not> truthy k \<longrightarrow>
         cl_baseURL p = ''https://api.ai.prod.eu-central-1.aws.ml.hana.ondemand.com/v2'')"
proof -
  from assms obtain k' where k': "parseServiceKey rt options = Inr k'"
    and b: "determineBaseURL options k' = Inr (cl_baseURL p)"
    by (rule create_succeeds)
  have explicit: "cl_baseURL p = (if u \<noteq> [] \<and> last u = CHR ''/'' then butlast u else u)"
    if "baseURL options = Some u"
    using b by (simp add: baseURL_explicit [OF that])
  have from_key: "\<exists>a. bindE (bindE (get_prop k ''serviceurls'') (\<lambda>su. get_prop su ''AI_API_URL''))
                        toStr = Inr a
              \<and> cl_baseURL p = a @ ''/v2''"
    if "baseURL options = None \<and> parseServiceKey rt options = Inr k \<and> truthy k"
    using that b k' by (auto simp add: baseURL_absent bindE_def split: sum.splits)
  have from_object: "cl_baseURL p = AI_API_URL (serviceurls key) @ ''/v2''"
    if "baseURL options = None \<and> serviceKey options = Some (KeyObject key)"
  proof -
    from that have "parseServiceKey rt options = Inr (key_value key)"
      by (simp add: parseServiceKey_def)
    with k' have "k' = key_value key" by simp
    with that b show ?thesis by (simp add: baseURL_of_key_object)
  qed
  have fallback: "cl_baseURL p = ''https://api.ai.prod.eu-central-1.aws.ml.hana.ondemand.com/v2''"
    if "baseURL options = None \<and> parseServiceKey rt options = Inr k \<and> \<not> truthy k"
    using that b k' by (simp add: baseURL_absent defaultBaseURL_def)
  from explicit from_key from_object fallback show ?thesis by blast
qed

theorem base_url_priority_witness:
  "map_sum id cl_baseURL (snd (createSAPAIProvider rtDenied optsEndpoint))
     = Inr ''https://own.example/v2''
   \<and> map_sum id cl_baseURL (snd (createSAPAIProvider rtDenied optsTokenAndKey))
     = Inr ''https://api.example/v2''
   \<and> map_sum id cl_baseURL (snd (createSAPAIProvider rtEnv noOptions))
     = Inr ''https://api.ai.prod.eu-central-1.aws.ml.hana.ondemand.com/v2''"
proof -
  obtain p where p: "snd (createSAPAIProvider rtDenied optsEndpoint) = Inr p"
    by (simp add: example_endpoint_created)
  obtain q where q: "snd (createSAPAIProvider rtDenied optsTokenAndKey) = Inr q"
    by (simp add: example_token_and_key_created)
  obtain r where r: "snd (createSAPAIProvider rtEnv noOptions) = Inr r"
    by (simp add: example_environment_created)
  have "baseURL optsEndpoint = Some ''https://own.example/v2/''"
    by (simp add: optsEndpoint_def noOptions_def)
  with base_url_priority [OF p, of "''https://own.example/v2/''"]
  have "cl_baseURL p = ''https://own.example/v2''" by simp
  moreover have "baseURL optsTokenAndKey = None
      \<and> serviceKey optsTokenAndKey = Some (KeyObject exampleKey)"
    by (simp add: optsTokenAndKey_def noOptions_def)
  with base_url_priority [OF q, where key = exampleKey]
  have "cl_baseURL q = ''https://api.example/v2''" by (simp add: exampleKey_def)
  moreover have "baseURL noOptions = None \<and> parseServiceKey rtEnv noOptions = Inr JUndefined
      \<and> \<not> truthy JUndefined"
    by (simp add: example_key_parse) (simp add: noOptions_def)
  with base_url_priority [OF r, where k = JUndefined]
  have "cl_baseURL r = ''https://api.ai.prod.eu-central-1.aws.ml.hana.ondemand.com/v2''"
    by blast
  ultimately show ?thesis using p q r by simp
qed

section \<open>The header function\<close>

lemma map_add_as_case:
  "f ++ g = (\<lambda>h. case g h of Some v \<Rightarrow> Some v | None \<Rightarrow> f h)"
  by (rule ext) (rule map_add_lookup)

lemma headers_of_closure:
  "toStr (cl_authToken p) = Inr t
   \<Longrightarrow> cfg_headers (config (createModel p mid s)) ()
       = Inr (\<lambda>h. case spread (cl_headers p) h of
                    Some v \<Rightarrow> Some v
                  | None \<Rightarrow>
                      [''Authorization'' \<mapsto> ''Bearer '' @ t,
                       ''Content-Type'' \<mapsto> ''application/json'',
                       ''ai-resource-group'' \<mapsto> cl_resourceGroup p] h)"
proof -
  assume "toStr (cl_authToken p) = Inr t"
  then have "cfg_headers (config (createModel p mid s)) ()
       = Inr ([''Authorization'' \<mapsto> ''Bearer '' @ t,
               ''Content-Type'' \<mapsto> ''application/json'',
               ''ai-resource-group'' \<mapsto> cl_resourceGroup p]
              ++ spread (cl_headers p))"
    by (simp add: createModel_def headerFactory_def bindE_def)
  then show ?thesis by (simp only: map_add_as_case)
qed

text \<open>
  C7. For every model handle of a provider, each call of its header function returns the
  map of \<open>Authorization\<close> to \<open>Bearer \<close> and the token, \<open>Content-Type\<close> to \<open>application/json\<close> and
  \<open>ai-resource-group\<close> to the resource group (the supplied one or \<open>default\<close>), extended with
  the custom headers: at every key the custom header wins, also at \<open>Authorization\<close>. The same
  holds for the synchronous variant, with its token.
\<close>

theorem header_factory:
  "(snd (createSAPAIProvider rt options) = Inr p \<and> toStr (cl_authToken p) = Inr t \<longrightarrow>
      cfg_headers (config (createModel p mid s)) ()
        = Inr (\<lambda>h. case spread (headers options) h of
                     Some v \<Rightarrow> Some v
                   | None \<Rightarrow>
                       [''Authorization'' \<mapsto> ''Bearer '' @ t,
                        ''Content-Type'' \<mapsto> ''application/json'',
                        ''ai-resource-group'' \<mapsto>
                          (case resourceGroup options of None \<Rightarrow> ''default'' | Some g \<Rightarrow> g)]
                       h))
   \<and> cfg_headers (config (createModel (createSAPAIProviderSync tok options) mid s)) ()
        = Inr (\<lambda>h. case spread (headers options) h of
                     Some v \<Rightarrow> Some v
                   | None \<Rightarrow>
                       [''Authorization'' \<mapsto> ''Bearer '' @ tok,
                        ''Content-Type'' \<mapsto> ''application/json'',
                        ''ai-resource-group'' \<mapsto>
                          (case resourceGroup options of None \<Rightarrow> ''default'' | Some g \<Rightarrow> g)]
                       h)"
proof (intro conjI impI)
  assume a: "snd (createSAPAIProvider rt options) = Inr p \<and> toStr (cl_authToken p) = Inr t"
  then have p: "snd (createSAPAIProvider rt options) = Inr p"
    and t: "toStr (cl_authToken p) = Inr t" by simp_all
  from p have g: "cl_resourceGroup p
      = (case resourceGroup options of None \<Rightarrow> ''default'' | Some g \<Rightarrow> g)"
    and c: "cl_headers p = headers options"
    by (rule create_succeeds, simp)+
  show "cfg_headers (config (createModel p mid s)) ()
        = Inr (\<lambda>h. case spread (headers options) h of
                     Some v \<Rightarrow> Some v
                   | None \<Rightarrow>
                       [''Authorization'' \<mapsto> ''Bearer '' @ t,
                        ''Content-Type'' \<mapsto> ''application/json'',
                        ''ai-resource-group'' \<mapsto>
                          (case resourceGroup options of None \<Rightarrow> ''default'' | Some g \<Rightarrow> g)]
                       h)"
    unfolding headers_of_closure [OF t] g c by (rule refl)
next
  have t: "toStr (cl_authToken (createSAPAIProviderSync tok options)) = Inr tok"
    by (simp add: createSAPAIProviderSync_def)
  have g: "cl_resourceGroup (createSAPAIProviderSync tok options)
      = (case resourceGroup options of None \<Rightarrow> ''default'' | Some g \<Rightarrow> g)"
    and c: "cl_headers (createSAPAIProviderSync tok options) = headers options"
    by (simp_all add: createSAPAIProviderSync_def)
  show "cfg_headers (config (createModel (createSAPAIProviderSync tok options) mid s)) ()
        = Inr (\<lambda>h. case spread (headers options) h of
                     Some v \<Rightarrow> Some v
                   | None \<Rightarrow>
                       [''Authorization'' \<mapsto> ''Bearer '' @ tok,
                        ''Content-Type'' \<mapsto> ''application/json'',
                        ''ai-resource-group'' \<mapsto>
                          (case resourceGroup options of None \<Rightarrow> ''default'' | Some g \<Rightarrow> g)]
                       h)"
    unfolding headers_of_closure [OF t] g c by (rule refl)
qed

theorem header_factory_witness:
  "map_sum id (\<lambda>p. map_sum id (\<lambda>m. map m [''Authorization'', ''Content-Type'',
                                          ''ai-resource-group'', ''X-Custom''])
                      (cfg_headers (config (createModel p ''gpt-4o'' None)) ()))
     (snd (createSAPAIProvider rtDenied optsEndpoint))
     = Inr (Inr [Some ''Basic abc'', Some ''application/json'', Some ''production'', Some ''1''])
   \<and> map_sum id (\<lambda>p. map_sum id (\<lambda>m. map m [''Authorization'', ''Content-Type'',
                                          ''ai-resource-group'', ''X-Custom''])
                      (cfg_headers (config (createModel p ''gpt-4o'' None)) ()))
     (snd (createSAPAIProvider rtDenied optsTokenAndKey))
     = Inr (Inr [Some ''Bearer explicit-token'', Some ''application/json'', Some ''default'',
                 None])"
proof -
  obtain p where p: "snd (createSAPAIProvider rtDenied optsEndpoint) = Inr p"
    and tp: "toStr (cl_authToken p) = Inr ''explicit-token''"
    by (simp add: example_endpoint_created)
  obtain q where q: "snd (createSAPAIProvider rtDenied optsTokenAndKey) = Inr q"
    and tq: "toStr (cl_authToken q) = Inr ''explicit-token''"
    by (simp add: example_token_and_key_created)
  have op: "headers optsEndpoint
              = Some [''Authorization'' \<mapsto> ''Basic abc'', ''X-Custom'' \<mapsto> ''1'']
            \<and> resourceGroup optsEndpoint = Some ''production''"
    by (simp add: optsEndpoint_def noOptions_def)
  have oq: "headers optsTokenAndKey = None \<and> resourceGroup optsTokenAndKey = None"
    by (simp add: optsTokenAndKey_def noOptions_def)
  from header_factory [of rtDenied optsEndpoint p "''explicit-token''" "''gpt-4o''" None] p tp op
  have "map_sum id (\<lambda>m. map m [''Authorization'', ''Content-Type'',
                                ''ai-resource-group'', ''X-Custom''])
          (cfg_headers (config (createModel p ''gpt-4o'' None)) ())
     = Inr [Some ''Basic abc'', Some ''application/json'', Some ''production'', Some ''1'']"
    by (simp add: spread_def)
  moreover
  from header_factory [of rtDenied optsTokenAndKey q "''explicit-token''" "''gpt-4o''" None]
    q tq oq
  have "map_sum id (\<lambda>m. map m [''Authorization'', ''Content-Type'',
                                ''ai-resource-group'', ''X-Custom''])
          (cfg_headers (config (createModel q ''gpt-4o'' None)) ())
     = Inr [Some ''Bearer explicit-token'', Some ''application/json'', Some ''default'', None]"
    by (simp add: spread_def)
  ultimately show ?thesis using p q by simp
qed

section \<open>Calls with \<open>new\<close>\<close>

text \<open>
  C8 at the default instance with \<open>SAP_AI_TOKEN\<close> set: called with \<open>new\<close>, its provider
  function raises no error and yields the model handle, while the provider functions of
  \<open>createSAPAIProvider\<close> and \<open>createSAPAIProviderSync\<close> raise the error that they cannot be
  called with the \<open>new\<close> keyword.
\<close>

theorem default_instance_accepts_new:
  "default_provider_call rtEnv True ''gpt-4o'' None
     = Inr (createModel (createSAPAIProviderSync ''env-token'' noOptions) ''gpt-4o'' None)
   \<and> provider_call p True mid s
     = Inl (Error ''The SAP AI provider function cannot be called with the new keyword.'')"
  by (simp add: default_provider_call_def default_createModel_def provider_call_def rtEnv_def)

section \<open>The default instance\<close>

text \<open>
  C9, as the code has it. Building the default provider handle raises nothing, whatever the
  environment. Calling it, directly or through \<open>chat\<close>, when \<open>SAP_AI_TOKEN\<close> is unset or empty
  fails with the error that tells the caller to set \<open>SAP_AI_TOKEN\<close> or to use
  \<open>createSAPAIProvider\<close> (the spec's \<open>ConfigurationError\<close>); calling it when \<open>SAP_AI_TOKEN\<close> is a
  non-empty string gives the model handle of the synchronous provider for that token.
\<close>

theorem default_instance_lazy:
  "createDefaultSAPAI rt = Inr DefaultSAPAI
   \<and> (process_env rt ''SAP_AI_TOKEN'' = None \<or> process_env rt ''SAP_AI_TOKEN'' = Some [] \<longrightarrow>
        default_provider_call rt False mid s = Inl (Error defaultInstanceMessage)
        \<and> default_provider_chat rt mid s = Inl (Error defaultInstanceMessage))
   \<and> (process_env rt ''SAP_AI_TOKEN'' = Some t \<and> t \<noteq> [] \<longrightarrow>
        default_provider_call rt False mid s
          = Inr (createModel (createSAPAIProviderSync t noOptions) mid s)
        \<and> default_provider_chat rt mid s
          = Inr (createModel (createSAPAIProviderSync t noOptions) mid s))"
  by (auto simp add: createDefaultSAPAI_def default_provider_call_def default_provider_chat_def
      default_createModel_def provider_call_def)

theorem default_instance_lazy_witness:
  "default_provider_call rtNoEnv False ''gpt-4o'' None = Inl (Error defaultInstanceMessage)
   \<and> default_provider_chat rtEnv ''gpt-4o'' None
     = Inr (createModel (createSAPAIProviderSync ''env-token'' noOptions) ''gpt-4o'' None)"
proof -
  have "process_env rtNoEnv ''SAP_AI_TOKEN'' = None" by (simp add: rtNoEnv_def)
  with default_instance_lazy [of rtNoEnv "''gpt-4o''" None]
  have "default_provider_call rtNoEnv False ''gpt-4o'' None = Inl (Error defaultInstanceMessage)"
    by blast
  moreover have "process_env rtEnv ''SAP_AI_TOKEN'' = Some ''env-token'' \<and> ''env-token'' \<noteq> []"
    by (simp add: rtEnv_def)
  with default_instance_lazy [of rtEnv "''gpt-4o''" None "''env-token''"]
  have "default_provider_chat rtEnv ''gpt-4o'' None
     = Inr (createModel (createSAPAIProviderSync ''env-token'' noOptions) ''gpt-4o'' None)"
    by blast
  ultimately show ?thesis by simp
qed

text \<open>
  C9 as stated fails when \<open>SAP_AI_TOKEN\<close> is set to the empty string: the call fails.
\<close>

theorem default_instance_empty_variable:
  "process_env rtEmptyEnv ''SAP_AI_TOKEN'' = Some []
   \<and> default_provider_call rtEmptyEnv False ''gpt-4o'' None = Inl (Error defaultInstanceMessage)"
  by (simp add: default_provider_call_def default_createModel_def rtEmptyEnv_def)

section \<open>Settings merge\<close>

lemma settings_of_createModel:
  "settings (createModel p mid s)
     = mergedSettings (cl_defaultSettings p) (case s of None \<Rightarrow> emptySettings | Some x \<Rightarrow> x)"
  by (simp add: createModel_def)

lemma mergedSettings_others:
  "others (mergedSettings d b) k
     = (case others b k of
          Some v \<Rightarrow> Some v
        | None \<Rightarrow> (case d of None \<Rightarrow> None | Some a \<Rightarrow> others a k))"
  by (simp add: mergedSettings_def spread_def map_add_lookup split: option.splits)

lemma mergedSettings_modelParams:
  "map_option (\<lambda>m. m k) (modelParams (mergedSettings d b))
     = Some (case spread (modelParams b) k of
               Some v \<Rightarrow> Some v
             | None \<Rightarrow> (case d of None \<Rightarrow> None | Some a \<Rightarrow> spread (modelParams a) k))"
  by (simp add: mergedSettings_def map_add_lookup spread_def split: option.splits)

lemma mergedSettings_again:
  "mergedSettings (Some (mergedSettings d b)) b = mergedSettings d b"
  by (simp add: mergedSettings_def spread_def map_add_twice)

text \<open>
  C6. The settings that \<open>createModel\<close> hands to the model are the merge of the provider's
  default settings (the base) and the per-call settings (the override), for every provider
  that creation returns, for the synchronous variant and for every provider closure, by call
  and by \<open>chat\<close>. At every top-level key the per-call value replaces the default, and a key
  the per-call bag does not have keeps the default's value (none when there are no defaults);
  \<open>modelParams\<close> is merged on its own by the same rule, an absent \<open>modelParams\<close> counting as
  empty, so overriding one model parameter keeps the other provider-level defaults. Omitted
  per-call settings are the empty bag. The merge is a function of the two bags, and merging
  the same override a second time changes nothing: \<open>merge(merge(a,b), b) = merge(a,b)\<close> for
  all \<open>a\<close> and \<open>b\<close>, in particular for those with disjoint key sets.
\<close>

theorem settings_merge_override_wins:
  "(snd (createSAPAIProvider rt options) = Inr p \<longrightarrow>
      others (settings (createModel p mid (Some b))) k
        = (case others b k of
             Some v \<Rightarrow> Some v
           | None \<Rightarrow> (case defaultSettings options of None \<Rightarrow> None | Some a \<Rightarrow> others a k))
      \<and> map_option (\<lambda>m. m k) (modelParams (settings (createModel p mid (Some b))))
        = Some (case spread (modelParams b) k of
                  Some v \<Rightarrow> Some v
                | None \<Rightarrow>
                    (case defaultSettings options of
                       None \<Rightarrow> None
                     | Some a \<Rightarrow> spread (modelParams a) k)))
   \<and> others (settings (createModel (createSAPAIProviderSync tok options) mid (Some b))) k
        = (case others b k of
             Some v \<Rightarrow> Some v
           | None \<Rightarrow> (case defaultSettings options of None \<Rightarrow> None | Some a \<Rightarrow> others a k))
   \<and> map_option (\<lambda>m. m k)
        (modelParams (settings (createModel (createSAPAIProviderSync tok options) mid (Some b))))
        = Some (case spread (modelParams b) k of
                  Some v \<Rightarrow> Some v
                | None \<Rightarrow>
                    (case defaultSettings options of
                       None \<Rightarrow> None
                     | Some a \<Rightarrow> spread (modelParams a) k))
   \<and> others (settings (createModel q mid (Some b))) k
        = (case others b k of
             Some v \<Rightarrow> Some v
           | None \<Rightarrow> (case cl_defaultSettings q of None \<Rightarrow> None | Some a \<Rightarrow> others a k))
   \<and> map_option (\<lambda>m. m k) (modelParams (settings (createModel q mid (Some b))))
        = Some (case spread (modelParams b) k of
                  Some v \<Rightarrow> Some v
                | None \<Rightarrow>
                    (case cl_defaultSettings q of
                       None \<Rightarrow> None
                     | Some a \<Rightarrow> spread (modelParams a) k))
   \<and> settings (createModel q mid None) = settings (createModel q mid (Some emptySettings))
   \<and> modelParams emptySettings = None \<and> others emptySettings k = None
   \<and> settings (provider_chat q mid s) = settings (createModel q mid s)
   \<and> map_sum id settings (provider_call q False mid s) = Inr (settings (createModel q mid s))
   \<and> settings (createModel
                 (q\<lparr> cl_defaultSettings := Some (settings (createModel q mid (Some b))) \<rparr>)
                 mid' (Some b))
        = settings (createModel q mid (Some b))
   \<and> mergedSettings (Some (mergedSettings d b)) b = mergedSettings d b
   \<and> others (mergedSettings (Some a) b) k
        = (case others b k of Some v \<Rightarrow> Some v | None \<Rightarrow> others a k)
   \<and> map_option (\<lambda>m. m k) (modelParams (mergedSettings (Some a) b))
        = Some (case spread (modelParams b) k of
                  Some v \<Rightarrow> Some v
                | None \<Rightarrow> spread (modelParams a) k)"
proof (intro conjI impI)
  assume c: "snd (createSAPAIProvider rt options) = Inr p"
  then have d: "cl_defaultSettings p = defaultSettings options"
    by (rule create_succeeds)
  show "others (settings (createModel p mid (Some b))) k
        = (case others b k of
             Some v \<Rightarrow> Some v
           | None \<Rightarrow> (case defaultSettings options of None \<Rightarrow> None | Some a \<Rightarrow> others a k))"
    by (simp add: settings_of_createModel mergedSettings_others d)
  show "map_option (\<lambda>m. m k) (modelParams (settings (createModel p mid (Some b))))
        = Some (case spread (modelParams b) k of
                  Some v \<Rightarrow> Some v
                | None \<Rightarrow>
                    (case defaultSettings options of
                       None \<Rightarrow> None
                     | Some a \<Rightarrow> spread (modelParams a) k))"
    by (simp add: settings_of_createModel mergedSettings_modelParams d)
next
  have d: "cl_defaultSettings (createSAPAIProviderSync tok options) = defaultSettings options"
    by (simp add: createSAPAIProviderSync_def)
  show "others (settings (createModel (createSAPAIProviderSync tok options) mid (Some b))) k
        = (case others b k of
             Some v \<Rightarrow> Some v
           | None \<Rightarrow> (case defaultSettings options of None \<Rightarrow> None | Some a \<Rightarrow> others a k))"
    by (simp add: settings_of_createModel mergedSettings_others d)
  show "map_option (\<lambda>m. m k)
        (modelParams (settings (createModel (createSAPAIProviderSync tok options) mid (Some b))))
        = Some (case spread (modelParams b) k of
                  Some v \<Rightarrow> Some v
                | None \<Rightarrow>
                    (case defaultSettings options of
                       None \<Rightarrow> None
                     | Some a \<Rightarrow> spread (modelParams a) k))"
    by (simp add: settings_of_createModel mergedSettings_modelParams d)
next
  show "others (settings (createModel q mid (Some b))) k
        = (case others b k of
             Some v \<Rightarrow> Some v
           | None \<Rightarrow> (case cl_defaultSettings q of None \<Rightarrow> None | Some a \<Rightarrow> others a k))"
    by (simp add: settings_of_createModel mergedSettings_others)
  show "map_option (\<lambda>m. m k) (modelParams (settings (createModel q mid (Some b))))
        = Some (case spread (modelParams b) k of
                  Some v \<Rightarrow> Some v
                | None \<Rightarrow>
                    (case cl_defaultSettings q of
                       None \<Rightarrow> None
                     | Some a \<Rightarrow> spread (modelParams a) k))"
    by (simp add: settings_of_createModel mergedSettings_modelParams)
  show "settings (createModel q mid None) = settings (createModel q mid (Some emptySettings))"
    by (simp add: settings_of_createModel)
  show "modelParams emptySettings = None" by (simp add: emptySettings_def)
  show "others emptySettings k = None" by (simp add: emptySettings_def)
  show "settings (provider_chat q mid s) = settings (createModel q mid s)"
    by (simp add: provider_chat_def)
  show "map_sum id settings (provider_call q False mid s) = Inr (settings (createModel q mid s))"
    by (simp add: provider_call_def)
  show "settings (createModel
                 (q\<lparr> cl_defaultSettings := Some (settings (createModel q mid (Some b))) \<rparr>)
                 mid' (Some b))
        = settings (createModel q mid (Some b))"
    by (simp add: settings_of_createModel mergedSettings_again)
  show "mergedSettings (Some (mergedSettings d b)) b = mergedSettings d b"
    by (rule mergedSettings_again)
  show "others (mergedSettings (Some a) b) k
        = (case others b k of Some v \<Rightarrow> Some v | None \<Rightarrow> others a k)"
    by (simp add: mergedSettings_others split: option.splits)
  show "map_option (\<lambda>m. m k) (modelParams (mergedSettings (Some a) b))
        = Some (case spread (modelParams b) k of
                  Some v \<Rightarrow> Some v
                | None \<Rightarrow> spread (modelParams a) k)"
    by (simp add: mergedSettings_modelParams split: option.splits)
qed

lemma example_defaults_created:
  "snd (createSAPAIProvider rt optsDefaults)
     = Inr \<lparr> cl_baseURL = defaultBaseURL,
             cl_authToken = JStr ''explicit-token'',
             cl_deploymentId = defaultDeploymentId,
             cl_resourceGroup = ''default'',
             cl_completionPath = None,
             cl_headers = None,
             cl_fetch = None,
             cl_defaultSettings = Some exampleDefaults \<rparr>"
  by (simp add: createSAPAIProvider_def parseServiceKey_def determineBaseURL_def
      determineAuthentication_def optsDefaults_def noOptions_def withoutTrailingSlash_def)

theorem settings_merge_override_wins_witness:
  "map_sum id (\<lambda>p. map (others (settings (createModel p ''gpt-4o'' (Some exampleCallSettings))))
                     [''mode'', ''safe'', ''absent''])
     (snd (createSAPAIProvider rtDenied optsDefaults))
     = Inr [Some (JStr ''call-mode''), Some (JBool True), None]
   \<and> map_sum id (\<lambda>p. map (\<lambda>k. map_option (\<lambda>m. m k)
                           (modelParams
                              (settings (createModel p ''gpt-4o'' (Some exampleCallSettings)))))
                     [''temperature'', ''maxTokens'', ''topP''])
     (snd (createSAPAIProvider rtDenied optsDefaults))
     = Inr [Some (Some (JNum ''0.7'')), Some (Some (JNum ''100'')), Some None]"
proof -
  obtain p where p: "snd (createSAPAIProvider rtDenied optsDefaults) = Inr p"
    by (simp add: example_defaults_created)
  have d: "defaultSettings optsDefaults = Some exampleDefaults"
    by (simp add: optsDefaults_def noOptions_def)
  note m = settings_merge_override_wins [where rt = rtDenied and options = optsDefaults
      and p = p and mid = "''gpt-4o''" and b = exampleCallSettings]
  have o: "others (settings (createModel p ''gpt-4o'' (Some exampleCallSettings))) k
      = (case others exampleCallSettings k of
           Some v \<Rightarrow> Some v
         | None \<Rightarrow> others exampleDefaults k)" for k
    using m [where k = k, THEN conjunct1, THEN mp, OF p, THEN conjunct1]
    unfolding d by (simp split: option.splits)
  have mp: "map_option (\<lambda>m. m k)
        (modelParams (settings (createModel p ''gpt-4o'' (Some exampleCallSettings))))
      = Some (case spread (modelParams exampleCallSettings) k of
                Some v \<Rightarrow> Some v
              | None \<Rightarrow> spread (modelParams exampleDefaults) k)" for k
    using m [where k = k, THEN conjunct1, THEN mp, OF p, THEN conjunct2]
    unfolding d by (simp split: option.splits)
  show ?thesis
    using o [of "''mode''"] o [of "''safe''"] o [of "''absent''"]
      mp [of "''temperature''"] mp [of "''maxTokens''"] mp [of "''topP''"]
    by (simp add: p exampleCallSettings_def exampleDefaults_def spread_def)
qed

end
